theory Spec2Isabelle
  imports Complex_Main
begin

section \<open>Numbers\<close>

text \<open>
  The program computes with JavaScript numbers. In the exact reading a finite number
  is a rational and sums, differences, products, \<open>Math.min\<close>, \<open>Math.max\<close> and
  \<open>Math.round\<close> are taken without rounding error; the binary64 reading follows
  below. \<open>Infinity\<close> occurs in the source as the
  upper edge of the last bracket of every table, so an upper edge is a \<open>bound\<close>.
  A division whose divisor the source does not guard can yield \<open>NaN\<close> or an
  infinity; such a result is a \<open>jsnum\<close>. The exact reading serves the properties
  that do not depend on how a result is rounded (an identity between the fields of a
  result, the order of two results, which branch is taken, whether a call returns).
\<close>

datatype bound = Fin rat | Infinity

datatype jsnum = Num rat | PosInfinity | NegInfinity | NaN

text \<open>\<open>Math.min(x, b)\<close> for a finite \<open>x\<close>.\<close>

fun Math_min :: "rat \<Rightarrow> bound \<Rightarrow> rat" where
  "Math_min x (Fin m) = min x m"
| "Math_min x Infinity = x"

text \<open>\<open>Math.round\<close> rounds to the nearest integer, a half towards plus infinity.\<close>

definition Math_round :: "rat \<Rightarrow> int" where
  "Math_round x = \<lfloor>x + 1 / 2\<rfloor>"

text \<open>The idiom \<open>Math.round(x * 100) / 100\<close> of the source.\<close>

definition round_cents :: "rat \<Rightarrow> rat" where
  "round_cents x = of_int (Math_round (x * 100)) / 100"

text \<open>\<open>a / b\<close> for finite operands, with the results JavaScript gives at \<open>b = 0\<close>.\<close>

definition js_div :: "rat \<Rightarrow> rat \<Rightarrow> jsnum" where
  "js_div a b =
     (if b \<noteq> 0 then Num (a / b)
      else if a = 0 then NaN
      else if 0 < a then PosInfinity else NegInfinity)"

text \<open>\<open>v * c\<close> for a finite \<open>c\<close>.\<close>

fun js_mul :: "jsnum \<Rightarrow> rat \<Rightarrow> jsnum" where
  "js_mul (Num a) c = Num (a * c)"
| "js_mul NaN c = NaN"
| "js_mul PosInfinity c =
     (if 0 < c then PosInfinity else if c < 0 then NegInfinity else NaN)"
| "js_mul NegInfinity c =
     (if 0 < c then NegInfinity else if c < 0 then PosInfinity else NaN)"

fun js_floor :: "jsnum \<Rightarrow> jsnum" where
  "js_floor (Num a) = Num (of_int \<lfloor>a\<rfloor>)"
| "js_floor v = v"

subsection \<open>Binary64\<close>

text \<open>
  Where a value is read to the cent, the tie cases of the rounding depend on the
  binary64 arithmetic of JavaScript, and the functions concerned are given a second
  time with every operation rounded as IEEE 754 prescribes (names ending in \<open>_d\<close>).
  A finite double is its exact rational value. \<open>nearest\<close> rounds a rational to the
  nearest double, ties to the even significand, with 53 significant bits and the
  subnormal spacing \<open>2 powi - 1074\<close>; \<open>fl\<close> adds the overflow to an infinity. The
  sign of a zero is not kept: it shows only in a division by a computed zero, which
  none of these functions performs.
\<close>

text \<open>The number of binary digits of a positive integer.\<close>

function bits :: "int \<Rightarrow> int" where
  "bits n = (if n \<le> 0 then 0 else 1 + bits (n div 2))"
  by pat_completeness auto
termination
  by (relation "measure nat") auto

declare bits.simps [simp del]

text \<open>\<open>ilog2 x\<close> is the integer \<open>e\<close> with \<open>2 powi e \<le> x < 2 powi (e + 1)\<close>, for \<open>0 < x\<close>.\<close>

definition ilog2 :: "rat \<Rightarrow> int" where
  "ilog2 x =
     (let (p, q) = quotient_of x;
          k = bits p - bits q
      in if 2 powi k \<le> x then k else k - 1)"

definition round_half_even :: "rat \<Rightarrow> int" where
  "round_half_even n =
     (let f = \<lfloor>n\<rfloor>; d = n - of_int f
      in if d < 1 / 2 then f else if 1 / 2 < d then f + 1
         else if even f then f else f + 1)"

definition nearest :: "rat \<Rightarrow> rat" where
  "nearest x =
     (if x = 0 then 0
      else (let q = 2 powi (max (ilog2 \<bar>x\<bar> - 52) (- 1074))
            in of_int (round_half_even (x / q)) * q))"

definition signed_inf :: "bool \<Rightarrow> jsnum" where
  "signed_inf positive = (if positive then PosInfinity else NegInfinity)"

text \<open>A rounded value of magnitude \<open>2 ^ 1024\<close> or more is an infinity.\<close>

definition fl :: "rat \<Rightarrow> jsnum" where
  "fl x =
     (let y = nearest x
      in if y = 0 then Num 0
         else if 1024 \<le> ilog2 \<bar>y\<bar> then signed_inf (0 < y)
         else Num y)"

text \<open>A decimal literal of the source denotes the double nearest to it.\<close>

definition lit :: "rat \<Rightarrow> jsnum" where
  "lit x = fl x"

fun lit_bound :: "bound \<Rightarrow> jsnum" where
  "lit_bound (Fin m) = lit m"
| "lit_bound Infinity = PosInfinity"

fun is_pos :: "jsnum \<Rightarrow> bool" where
  "is_pos (Num a) = (0 < a)"
| "is_pos PosInfinity = True"
| "is_pos NegInfinity = False"
| "is_pos NaN = False"

fun d_neg :: "jsnum \<Rightarrow> jsnum" where
  "d_neg (Num a) = Num (- a)"
| "d_neg PosInfinity = NegInfinity"
| "d_neg NegInfinity = PosInfinity"
| "d_neg NaN = NaN"

definition d_add :: "jsnum \<Rightarrow> jsnum \<Rightarrow> jsnum" where
  "d_add x y =
     (if x = NaN \<or> y = NaN then NaN
      else case (x, y) of
             (Num a, Num b) \<Rightarrow> fl (a + b)
           | (Num a, _) \<Rightarrow> y
           | (_, Num b) \<Rightarrow> x
           | _ \<Rightarrow> if x = y then x else NaN)"

definition d_sub :: "jsnum \<Rightarrow> jsnum \<Rightarrow> jsnum" where
  "d_sub x y = d_add x (d_neg y)"

definition d_mul :: "jsnum \<Rightarrow> jsnum \<Rightarrow> jsnum" where
  "d_mul x y =
     (if x = NaN \<or> y = NaN then NaN
      else case (x, y) of
             (Num a, Num b) \<Rightarrow> fl (a * b)
           | _ \<Rightarrow> if x = Num 0 \<or> y = Num 0 then NaN
                  else signed_inf (is_pos x = is_pos y))"

definition d_div :: "jsnum \<Rightarrow> jsnum \<Rightarrow> jsnum" where
  "d_div x y =
     (if x = NaN \<or> y = NaN then NaN
      else case (x, y) of
             (Num a, Num b) \<Rightarrow>
               if b \<noteq> 0 then fl (a / b)
               else if a = 0 then NaN else signed_inf (0 < a)
           | (Num a, _) \<Rightarrow> Num 0
           | (_, Num b) \<Rightarrow> signed_inf (is_pos x = (0 \<le> b))
           | _ \<Rightarrow> NaN)"

text \<open>\<open>x < y\<close>; a comparison with \<open>NaN\<close> is false.\<close>

fun d_less :: "jsnum \<Rightarrow> jsnum \<Rightarrow> bool" where
  "d_less (Num a) (Num b) = (a < b)"
| "d_less NaN y = False"
| "d_less x NaN = False"
| "d_less x NegInfinity = False"
| "d_less NegInfinity y = True"
| "d_less PosInfinity y = False"
| "d_less x PosInfinity = True"

definition Math_min_d :: "jsnum \<Rightarrow> jsnum \<Rightarrow> jsnum" where
  "Math_min_d x y = (if x = NaN \<or> y = NaN then NaN else if d_less y x then y else x)"

definition Math_max_d :: "jsnum \<Rightarrow> jsnum \<Rightarrow> jsnum" where
  "Math_max_d x y = (if x = NaN \<or> y = NaN then NaN else if d_less x y then y else x)"

text \<open>
  \<open>Math.round\<close> of a double is exact: the result is an integer of at most 53 bits, or
  the argument itself when that is already an integer.
\<close>

fun Math_round_d :: "jsnum \<Rightarrow> jsnum" where
  "Math_round_d (Num a) = Num (of_int (Math_round a))"
| "Math_round_d v = v"

text \<open>\<open>Math.round(x * 100) / 100\<close> in binary64.\<close>

definition round_cents_d :: "jsnum \<Rightarrow> jsnum" where
  "round_cents_d v = d_div (Math_round_d (d_mul v (lit 100))) (lit 100)"

section \<open>Tax calculator (src/js/utils/tax-calculator.js)\<close>

datatype calc_error =
    InvalidFilingStatus  \<comment> \<open>\<open>throw new Error(`Invalid filing status: ...`)\<close>\<close>
  | TypeError            \<comment> \<open>iterating or reading a property of \<open>undefined\<close>\<close>

text \<open>
  The tables are object literals, and \<open>table[key]\<close> finds, besides the keys written
  in the literal, the names every object inherits from \<open>Object.prototype\<close>. The
  values found under those names are functions (the prototype object itself under
  \<open>__proto__\<close>): truthy, not iterable, and without a \<open>type\<close> field.
\<close>

datatype 'a lookup = Own 'a | Inherited | Undefined

definition object_prototype_keys :: "string list" where
  "object_prototype_keys =
     [''constructor'', ''__defineGetter__'', ''__defineSetter__'', ''hasOwnProperty'',
      ''__lookupGetter__'', ''__lookupSetter__'', ''isPrototypeOf'',
      ''propertyIsEnumerable'', ''toString'', ''valueOf'', ''__proto__'',
      ''toLocaleString'']"

definition js_lookup :: "(string \<times> 'a) list \<Rightarrow> string \<Rightarrow> 'a lookup" where
  "js_lookup table key =
     (case map_of table key of
        Some v \<Rightarrow> Own v
      | None \<Rightarrow> if key \<in> set object_prototype_keys then Inherited else Undefined)"

record bracket =
  bmin :: rat
  bmax :: bound
  rate :: rat

definition mk :: "rat \<Rightarrow> bound \<Rightarrow> rat \<Rightarrow> bracket" where
  "mk lo hi r = \<lparr>bmin = lo, bmax = hi, rate = r\<rparr>"

definition federalBrackets_table :: "(string \<times> bracket list) list" where
  "federalBrackets_table =
    [(''single'',
       [mk 0 (Fin 11550) 0.10, mk 11550 (Fin 46650) 0.12, mk 46650 (Fin 100525) 0.22,
        mk 100525 (Fin 191950) 0.24, mk 191950 (Fin 243725) 0.32,
        mk 243725 (Fin 609350) 0.35, mk 609350 Infinity 0.37]),
     (''marriedFilingJointly'',
       [mk 0 (Fin 23100) 0.10, mk 23100 (Fin 93300) 0.12, mk 93300 (Fin 201050) 0.22,
        mk 201050 (Fin 383900) 0.24, mk 383900 (Fin 487450) 0.32,
        mk 487450 (Fin 731200) 0.35, mk 731200 Infinity 0.37]),
     (''marriedFilingSeparately'',
       [mk 0 (Fin 11550) 0.10, mk 11550 (Fin 46650) 0.12, mk 46650 (Fin 100525) 0.22,
        mk 100525 (Fin 191950) 0.24, mk 191950 (Fin 243725) 0.32,
        mk 243725 (Fin 365600) 0.35, mk 365600 Infinity 0.37]),
     (''headOfHousehold'',
       [mk 0 (Fin 16550) 0.10, mk 16550 (Fin 63100) 0.12, mk 63100 (Fin 100500) 0.22,
        mk 100500 (Fin 191950) 0.24, mk 191950 (Fin 243700) 0.32,
        mk 243700 (Fin 609350) 0.35, mk 609350 Infinity 0.37])]"

definition federalBrackets :: "string \<Rightarrow> bracket list lookup" where
  "federalBrackets = js_lookup federalBrackets_table"

definition standardDeductions :: "string \<Rightarrow> rat option" where
  "standardDeductions = map_of
    [(''single'', 15000), (''marriedFilingJointly'', 30000),
     (''marriedFilingSeparately'', 15000), (''headOfHousehold'', 22500)]"

definition socialSecurityRate :: rat where "socialSecurityRate = 0.062"
definition medicareRate :: rat where "medicareRate = 0.0145"
definition additionalMedicareRate :: rat where "additionalMedicareRate = 0.009"
definition socialSecurityWageBase :: rat where "socialSecurityWageBase = 176100"

datatype stateInfo = NoTax | Flat rat | Progressive "bracket list"

definition stateTaxRates_table :: "(string \<times> stateInfo) list" where
  "stateTaxRates_table =
    [(''AK'', NoTax), (''FL'', NoTax), (''NV'', NoTax), (''NH'', NoTax), (''SD'', NoTax),
     (''TN'', NoTax), (''TX'', NoTax), (''WA'', NoTax), (''WY'', NoTax),
     (''CO'', Flat 0.044), (''IL'', Flat 0.0495), (''IN'', Flat 0.030),
     (''IA'', Flat 0.038), (''KY'', Flat 0.045), (''MI'', Flat 0.0425),
     (''NC'', Flat 0.045), (''PA'', Flat 0.0307), (''UT'', Flat 0.0485),
     (''CA'', Progressive
       [mk 0 (Fin 10099) 0.01, mk 10099 (Fin 23942) 0.02, mk 23942 (Fin 37788) 0.04,
        mk 37788 (Fin 52455) 0.06, mk 52455 (Fin 66295) 0.08,
        mk 66295 (Fin 338639) 0.093, mk 338639 (Fin 406364) 0.103,
        mk 406364 (Fin 677278) 0.113, mk 677278 Infinity 0.123]),
     (''NY'', Progressive
       [mk 0 (Fin 8500) 0.04, mk 8500 (Fin 11700) 0.045, mk 11700 (Fin 13900) 0.0525,
        mk 13900 (Fin 80650) 0.0585, mk 80650 (Fin 215400) 0.0625,
        mk 215400 (Fin 1077550) 0.0685, mk 1077550 (Fin 5000000) 0.0965,
        mk 5000000 (Fin 25000000) 0.103, mk 25000000 Infinity 0.109])]"

definition stateTaxRates :: "string \<Rightarrow> stateInfo lookup" where
  "stateTaxRates = js_lookup stateTaxRates_table"

text \<open>
  The loop shared by \<open>calculateFederalTax\<close> and the progressive case of
  \<open>calculateStateTax\<close>: \<open>tax\<close> is the accumulator of the source.
\<close>

fun bracket_loop :: "rat \<Rightarrow> bracket list \<Rightarrow> rat \<Rightarrow> rat" where
  "bracket_loop taxableIncome [] tax = tax"
| "bracket_loop taxableIncome (b # bs) tax =
     bracket_loop taxableIncome bs
       (if taxableIncome > bmin b
        then tax + (Math_min taxableIncome (bmax b) - bmin b) * rate b
        else tax)"

text \<open>
  \<open>calculateFederalTax(taxableIncome, filingStatus = 'single')\<close>: an argument that is
  \<open>undefined\<close> (\<open>None\<close>) takes the default. An inherited name passes the test
  \<open>!brackets\<close> and fails in the \<open>for ... of\<close>.
\<close>

definition calculateFederalTax :: "rat \<Rightarrow> string option \<Rightarrow> calc_error + rat" where
  "calculateFederalTax taxableIncome filingStatus =
     (case federalBrackets (case filingStatus of None \<Rightarrow> ''single'' | Some s \<Rightarrow> s) of
        Undefined \<Rightarrow> Inl InvalidFilingStatus
      | Inherited \<Rightarrow> Inl TypeError
      | Own brackets \<Rightarrow> Inr (round_cents (bracket_loop taxableIncome brackets 0)))"

text \<open>
  \<open>calculateStateTax\<close>: a value found under an inherited name is truthy and has no
  \<open>type\<close>, so the \<open>switch\<close> takes its \<open>default: return 0\<close>.
\<close>

definition calculateStateTax :: "rat \<Rightarrow> string \<Rightarrow> rat" where
  "calculateStateTax taxableIncome state =
     (case stateTaxRates state of
        Undefined \<Rightarrow> taxableIncome * 0.05
      | Inherited \<Rightarrow> 0
      | Own NoTax \<Rightarrow> 0
      | Own (Flat r) \<Rightarrow> taxableIncome * r
      | Own (Progressive brackets) \<Rightarrow> round_cents (bracket_loop taxableIncome brackets 0))"

record fica =
  socialSecurity :: rat
  medicare :: rat
  additionalMedicare :: rat
  total :: rat

definition calculateFICA :: "rat \<Rightarrow> fica" where
  "calculateFICA grossWages =
     (let socialSecurityWages = min grossWages socialSecurityWageBase;
          socialSecurityTax = socialSecurityWages * socialSecurityRate;
          medicareTax = grossWages * medicareRate;
          additionalMedicareTax =
            (if grossWages > 200000 then (grossWages - 200000) * additionalMedicareRate else 0)
      in \<lparr>socialSecurity = round_cents socialSecurityTax,
          medicare = round_cents medicareTax,
          additionalMedicare = round_cents additionalMedicareTax,
          total = round_cents (socialSecurityTax + medicareTax + additionalMedicareTax)\<rparr>)"

text \<open>
  \<open>this.standardDeductions[filingStatus] || this.standardDeductions.single\<close>, for
  the keys of the table and the names that are missing from it. (Under an inherited
  name the expression finds a function; \<open>calculateAllTaxes\<close> then raises in
  \<open>calculateFederalTax\<close>, whatever the deduction.)
\<close>

definition getStandardDeduction :: "string option \<Rightarrow> rat" where
  "getStandardDeduction filingStatus =
     (case filingStatus of
        None \<Rightarrow> 15000
      | Some s \<Rightarrow> (case standardDeductions s of None \<Rightarrow> 15000 | Some d \<Rightarrow> d))"

definition calculateEffectiveRate :: "rat \<Rightarrow> rat \<Rightarrow> rat" where
  "calculateEffectiveRate totalTax grossIncome =
     (if grossIncome > 0 then (totalTax / grossIncome) * 100 else 0)"

text \<open>The loop of \<open>calculateMarginalRate\<close>: the rate of the last bracket entered.\<close>

fun marginal_loop :: "rat \<Rightarrow> bracket list \<Rightarrow> rat \<Rightarrow> rat" where
  "marginal_loop taxableIncome [] r = r"
| "marginal_loop taxableIncome (b # bs) r =
     marginal_loop taxableIncome bs (if taxableIncome > bmin b then rate b else r)"

text \<open>
  \<open>calculateMarginalRate\<close> iterates over \<open>this.federalBrackets[filingStatus]\<close>
  without a check: for a key outside the table the value is \<open>undefined\<close> or an
  inherited function, and the \<open>for ... of\<close> raises a TypeError.
\<close>

definition calculateMarginalRate :: "rat \<Rightarrow> string option \<Rightarrow> string \<Rightarrow> calc_error + rat" where
  "calculateMarginalRate taxableIncome filingStatus state =
     (case (case filingStatus of None \<Rightarrow> Undefined | Some s \<Rightarrow> federalBrackets s) of
        Undefined \<Rightarrow> Inl TypeError
      | Inherited \<Rightarrow> Inl TypeError
      | Own fb \<Rightarrow>
          (let federalMarginalRate = marginal_loop taxableIncome fb 0;
               stateMarginalRate =
                 (case stateTaxRates state of
                    Own (Flat r) \<Rightarrow> r
                  | Own (Progressive sb) \<Rightarrow> marginal_loop taxableIncome sb 0
                  | _ \<Rightarrow> 0)
           in Inr ((federalMarginalRate + stateMarginalRate) * 100)))"

record TaxResult =
  grossIncome :: rat
  preTexDeductions :: rat
  standardDeduction :: rat
  taxableIncome :: rat
  federalTax :: rat
  stateTax :: rat
  fica :: fica
  totalTax :: rat
  netIncome :: rat
  effectiveRate :: rat
  marginalRate :: rat

definition calculateAllTaxes ::
  "rat \<Rightarrow> rat \<Rightarrow> string option \<Rightarrow> string \<Rightarrow> calc_error + TaxResult" where
  "calculateAllTaxes gross preTex filingStatus state =
     (let sd = getStandardDeduction filingStatus;
          ti = max 0 (gross - preTex - sd)
      in case calculateFederalTax ti filingStatus of
           Inl e \<Rightarrow> Inl e
         | Inr fed \<Rightarrow>
             (let st = calculateStateTax ti state;
                  fi = calculateFICA (gross - preTex);
                  tt = fed + st + total fi;
                  net = gross - preTex - tt
              in case calculateMarginalRate ti filingStatus state of
                   Inl e \<Rightarrow> Inl e
                 | Inr mr \<Rightarrow>
                     Inr \<lparr>grossIncome = gross, preTexDeductions = preTex,
                          standardDeduction = sd, taxableIncome = ti,
                          federalTax = fed, stateTax = st, fica = fi,
                          totalTax = tt, netIncome = net,
                          effectiveRate = calculateEffectiveRate tt gross,
                          marginalRate = mr\<rparr>))"

subsection \<open>The cent-level functions in binary64\<close>

record fica_d =
  socialSecurity_d :: jsnum
  medicare_d :: jsnum
  additionalMedicare_d :: jsnum
  total_d :: jsnum

definition calculateFICA_d :: "jsnum \<Rightarrow> fica_d" where
  "calculateFICA_d grossWages =
     (let socialSecurityWages = Math_min_d grossWages (lit socialSecurityWageBase);
          socialSecurityTax = d_mul socialSecurityWages (lit socialSecurityRate);
          medicareTax = d_mul grossWages (lit medicareRate);
          additionalMedicareTax =
            (if d_less (lit 200000) grossWages
             then d_mul (d_sub grossWages (lit 200000)) (lit additionalMedicareRate)
             else lit 0)
      in \<lparr>socialSecurity_d = round_cents_d socialSecurityTax,
          medicare_d = round_cents_d medicareTax,
          additionalMedicare_d = round_cents_d additionalMedicareTax,
          total_d =
            round_cents_d (d_add (d_add socialSecurityTax medicareTax)
                             additionalMedicareTax)\<rparr>)"

fun bracket_loop_d :: "jsnum \<Rightarrow> bracket list \<Rightarrow> jsnum \<Rightarrow> jsnum" where
  "bracket_loop_d income [] tax = tax"
| "bracket_loop_d income (b # bs) tax =
     bracket_loop_d income bs
       (if d_less (lit (bmin b)) income
        then d_add tax
               (d_mul (d_sub (Math_min_d income (lit_bound (bmax b))) (lit (bmin b)))
                  (lit (rate b)))
        else tax)"

definition calculateStateTax_d :: "jsnum \<Rightarrow> string \<Rightarrow> jsnum" where
  "calculateStateTax_d income state =
     (case stateTaxRates state of
        Undefined \<Rightarrow> d_mul income (lit 0.05)
      | Inherited \<Rightarrow> lit 0
      | Own NoTax \<Rightarrow> lit 0
      | Own (Flat r) \<Rightarrow> d_mul income (lit r)
      | Own (Progressive brackets) \<Rightarrow>
          round_cents_d (bracket_loop_d income brackets (lit 0)))"

section \<open>Household calculator (class HouseholdCalculator of src/js/main.js)\<close>

text \<open>
  A scenario is a plain object read from storage, so any subtree can be missing:
  a property that may be \<open>undefined\<close> is an \<open>option\<close>. Reading a property of
  \<open>undefined\<close> raises a TypeError.
\<close>

record person =
  p_name :: "string option"
  p_salary :: "rat option"
  p_bonus :: "rat option"
  p_otherIncome :: "rat option"
  p_payFrequency :: "string option"
  p_preTexDeductions :: "(string \<times> rat) list option"

record income =
  person1 :: "person option"
  person2 :: "person option"

text \<open>
  \<open>h_location\<close> is \<open>None\<close> when \<open>household.location\<close> is missing and otherwise holds
  \<open>household.location.state\<close>.
\<close>

record household =
  h_location :: "string option"
  h_filingStatus :: "string option"

text \<open>
  A value stored under a key of a category: an object with an \<open>amount\<close> field (an
  expense item with its \<open>assignedTo\<close>), an object without one (a nested mapping), or a
  value that is not an object.
\<close>

datatype node = Item rat string | Branch "(string \<times> node) list" | Prim

record ramitCategories =
  fixedCosts :: "(string \<times> node) list option"
  investments :: "(string \<times> node) list option"
  savings :: "(string \<times> node) list option"
  guiltFreeSpending :: "(string \<times> node) list option"

text \<open>
  \<open>sc_expenses\<close> is \<open>None\<close> when the scenario has no \<open>expenses\<close> and \<open>Some None\<close>
  when \<open>expenses\<close> has no \<open>ramitCategories\<close>.
\<close>

record scenario =
  sc_household :: "household option"
  sc_income :: "income option"
  sc_expenses :: "ramitCategories option option"

datatype fica_part = FullFica fica | TotalOnly rat

record personCalc =
  pc_name :: string
  pc_gross :: rat
  pc_preTexDeductions :: rat
  pc_federalTax :: rat
  pc_stateTax :: rat
  pc_fica :: fica_part
  pc_totalTax :: rat
  pc_netAnnual :: rat
  pc_monthlyNet :: rat
  pc_effectiveRate :: rat
  pc_marginalRate :: rat
  pc_biweeklyNet :: rat

definition getEmptyPersonCalculation :: personCalc where
  "getEmptyPersonCalculation =
     \<lparr>pc_name = [], pc_gross = 0, pc_preTexDeductions = 0, pc_federalTax = 0,
      pc_stateTax = 0, pc_fica = TotalOnly 0, pc_totalTax = 0, pc_netAnnual = 0,
      pc_monthlyNet = 0, pc_effectiveRate = 0, pc_marginalRate = 0, pc_biweeklyNet = 0\<rparr>"

definition calculateBiweeklyPay :: "rat \<Rightarrow> string option \<Rightarrow> rat" where
  "calculateBiweeklyPay annualNet payFrequency =
     (if payFrequency = Some ''weekly'' then annualNet / 52
      else if payFrequency = Some ''biweekly'' then annualNet / 26
      else if payFrequency = Some ''semimonthly'' then annualNet / 24
      else if payFrequency = Some ''monthly'' then annualNet / 12
      else annualNet / 26)"

text \<open>\<open>x || 0\<close> for a number that may be missing.\<close>

definition or_zero :: "rat option \<Rightarrow> rat" where
  "or_zero v = (case v of None \<Rightarrow> 0 | Some x \<Rightarrow> x)"

definition calculatePersonIncome :: "person option \<Rightarrow> scenario \<Rightarrow> calc_error + personCalc" where
  "calculatePersonIncome person sc =
     (case person of
        None \<Rightarrow> Inr getEmptyPersonCalculation
      | Some p \<Rightarrow>
          (let gross = or_zero (p_salary p) + or_zero (p_bonus p) + or_zero (p_otherIncome p);
               preTex = (case p_preTexDeductions p of
                           None \<Rightarrow> 0
                         | Some ds \<Rightarrow> fold (\<lambda>amount sum. sum + amount) (map snd ds) 0)
           in case sc_household sc of
                None \<Rightarrow> Inl TypeError
              | Some h \<Rightarrow>
                  (case h_location h of
                     None \<Rightarrow> Inl TypeError
                   | Some st \<Rightarrow>
                       (case calculateAllTaxes gross preTex (h_filingStatus h) st of
                          Inl e \<Rightarrow> Inl e
                        | Inr taxResult \<Rightarrow>
                            Inr \<lparr>pc_name = (case p_name p of
                                               None \<Rightarrow> ''Unknown''
                                             | Some n \<Rightarrow> if n = [] then ''Unknown'' else n),
                                 pc_gross = gross,
                                 pc_preTexDeductions = preTex,
                                 pc_federalTax = federalTax taxResult,
                                 pc_stateTax = stateTax taxResult,
                                 pc_fica = FullFica (fica taxResult),
                                 pc_totalTax = totalTax taxResult,
                                 pc_netAnnual = netIncome taxResult,
                                 pc_monthlyNet = netIncome taxResult / 12,
                                 pc_effectiveRate = effectiveRate taxResult,
                                 pc_marginalRate = marginalRate taxResult,
                                 pc_biweeklyNet =
                                   calculateBiweeklyPay (netIncome taxResult)
                                     (p_payFrequency p)\<rparr>))))"

text \<open>
  \<open>calculateCategoryTotal(category, person = null)\<close>. \<open>!person\<close> holds for \<open>null\<close>
  and for the empty string. \<open>processItem\<close> and \<open>traverseCategory\<close> update the
  variable \<open>total\<close> of the enclosing call, which is passed along here.
\<close>

definition no_person :: "string option \<Rightarrow> bool" where
  "no_person person = (person = None \<or> person = Some [])"

definition processItem :: "string option \<Rightarrow> rat \<Rightarrow> string \<Rightarrow> rat \<Rightarrow> rat" where
  "processItem person amount assignedTo tot =
     (if amount \<noteq> 0 then
        (if no_person person then tot + amount
         else if Some assignedTo = person then tot + amount
         else if assignedTo = ''shared'' \<and> \<not> no_person person then tot + amount / 2
         else tot)
      else tot)"

fun traverseCategory :: "string option \<Rightarrow> (string \<times> node) list \<Rightarrow> rat \<Rightarrow> rat"
  and visit :: "string option \<Rightarrow> node \<Rightarrow> rat \<Rightarrow> rat" where
  "traverseCategory person [] tot = tot"
| "traverseCategory person ((key, v) # rest) tot =
     traverseCategory person rest (visit person v tot)"
| "visit person (Item amount assignedTo) tot = processItem person amount assignedTo tot"
| "visit person (Branch cat) tot = traverseCategory person cat tot"
| "visit person Prim tot = tot"

text \<open>A \<open>for ... in\<close> over \<open>undefined\<close> runs no iteration.\<close>

definition calculateCategoryTotal :: "(string \<times> node) list option \<Rightarrow> string option \<Rightarrow> rat" where
  "calculateCategoryTotal category person =
     (case category of None \<Rightarrow> 0 | Some cat \<Rightarrow> traverseCategory person cat 0)"

record breakdown =
  b_fixedCosts :: rat
  b_investments :: rat
  b_savings :: rat
  b_guiltFreeSpending :: rat

record expensesResult =
  ex_breakdown :: breakdown
  ex_total :: rat
  ex_monthly :: rat
  ex_annual :: rat

definition calculateHouseholdExpenses ::
  "ramitCategories option option \<Rightarrow> calc_error + expensesResult" where
  "calculateHouseholdExpenses expenses =
     (case expenses of
        None \<Rightarrow> Inl TypeError
      | Some None \<Rightarrow> Inl TypeError
      | Some (Some categories) \<Rightarrow>
          (let bd = \<lparr>b_fixedCosts = calculateCategoryTotal (fixedCosts categories) None,
                     b_investments = calculateCategoryTotal (investments categories) None,
                     b_savings = calculateCategoryTotal (savings categories) None,
                     b_guiltFreeSpending =
                       calculateCategoryTotal (guiltFreeSpending categories) None\<rparr>;
               tot = fold (\<lambda>amount sum. sum + amount)
                       [b_fixedCosts bd, b_investments bd, b_savings bd,
                        b_guiltFreeSpending bd] 0
           in Inr \<lparr>ex_breakdown = bd, ex_total = tot, ex_monthly = tot,
                   ex_annual = tot * 12\<rparr>))"

record categoryBreakdown =
  cb_amount :: rat
  cb_percentage :: rat
  cb_target_min :: rat
  cb_target_max :: rat

record ramitBreakdown =
  rb_fixedCosts :: categoryBreakdown
  rb_investments :: categoryBreakdown
  rb_savings :: categoryBreakdown
  rb_guiltFreeSpending :: categoryBreakdown

definition category_entry :: "rat \<Rightarrow> rat \<Rightarrow> rat \<Rightarrow> rat \<Rightarrow> categoryBreakdown" where
  "category_entry amount monthlyNet lo hi =
     \<lparr>cb_amount = amount,
      cb_percentage = (if monthlyNet > 0 then (amount / monthlyNet) * 100 else 0),
      cb_target_min = lo, cb_target_max = hi\<rparr>"

definition calculateRamitBreakdown ::
  "ramitCategories option option \<Rightarrow> rat \<Rightarrow> calc_error + ramitBreakdown" where
  "calculateRamitBreakdown expenses netInc =
     (case expenses of
        None \<Rightarrow> Inl TypeError
      | Some None \<Rightarrow> Inl TypeError
      | Some (Some categories) \<Rightarrow>
          (let monthlyNet = netInc / 12
           in Inr \<lparr>rb_fixedCosts =
                     category_entry (calculateCategoryTotal (fixedCosts categories) None)
                       monthlyNet 50 60,
                   rb_investments =
                     category_entry (calculateCategoryTotal (investments categories) None)
                       monthlyNet 10 10,
                   rb_savings =
                     category_entry (calculateCategoryTotal (savings categories) None)
                       monthlyNet 5 10,
                   rb_guiltFreeSpending =
                     category_entry
                       (calculateCategoryTotal (guiltFreeSpending categories) None)
                       monthlyNet 20 35\<rparr>))"

record emergencyFund =
  ef_recommended :: rat
  ef_current :: rat
  ef_ratio :: jsnum
  ef_monthsCovered :: jsnum

definition calculateEmergencyFundRatio :: "expensesResult \<Rightarrow> emergencyFund" where
  "calculateEmergencyFundRatio expenses =
     (let monthlyExpenses = ex_total expenses;
          recommendedEmergencyFund = monthlyExpenses * 6
      in \<lparr>ef_recommended = recommendedEmergencyFund, ef_current = 15000,
          ef_ratio = js_div 15000 recommendedEmergencyFund,
          ef_monthsCovered = js_div 15000 monthlyExpenses\<rparr>)"

record summary =
  s_monthlyNetIncome :: rat
  s_monthlyExpenses :: rat
  s_monthlySurplus :: rat
  s_annualSurplus :: rat
  s_savingsRate :: rat
  s_monthsOfExpenses :: jsnum
  s_emergencyFundRatio :: emergencyFund
  s_debtToIncomeRatio :: rat

definition calculateSummaryMetrics :: "personCalc \<Rightarrow> personCalc \<Rightarrow> expensesResult \<Rightarrow> summary" where
  "calculateSummaryMetrics person1Calc person2Calc householdExpenses =
     (let totalNetIncome = pc_netAnnual person1Calc + pc_netAnnual person2Calc;
          monthlyNetIncome = totalNetIncome / 12;
          monthlyExpenses = ex_total householdExpenses;
          monthlySurplus = monthlyNetIncome - monthlyExpenses;
          annualSurplus = monthlySurplus * 12
      in \<lparr>s_monthlyNetIncome = monthlyNetIncome,
          s_monthlyExpenses = monthlyExpenses,
          s_monthlySurplus = monthlySurplus,
          s_annualSurplus = annualSurplus,
          s_savingsRate =
            (if monthlyNetIncome > 0 then (monthlySurplus / monthlyNetIncome) * 100 else 0),
          s_monthsOfExpenses =
            (if monthlySurplus > 0 then js_floor (js_div monthlyNetIncome monthlyExpenses)
             else Num 0),
          s_emergencyFundRatio = calculateEmergencyFundRatio householdExpenses,
          s_debtToIncomeRatio = 0\<rparr>)"

record householdTotals =
  hh_grossIncome :: rat
  hh_netIncome :: rat
  hh_monthlyNetIncome :: rat
  hh_totalTaxes :: rat
  hh_effectiveRate :: jsnum

record scenarioResult =
  r_person1 :: personCalc
  r_person2 :: personCalc
  r_household :: householdTotals
  r_expenses :: expensesResult
  r_ramitBreakdown :: ramitBreakdown
  r_summary :: summary

text \<open>The object literal returned by \<open>calculateScenario\<close>.\<close>

definition scenario_result ::
  "personCalc \<Rightarrow> personCalc \<Rightarrow> expensesResult \<Rightarrow> ramitBreakdown \<Rightarrow> scenarioResult" where
  "scenario_result person1Calc person2Calc householdExpenses rb =
     \<lparr>r_person1 = person1Calc,
      r_person2 = person2Calc,
      r_household =
        \<lparr>hh_grossIncome = pc_gross person1Calc + pc_gross person2Calc,
         hh_netIncome = pc_netAnnual person1Calc + pc_netAnnual person2Calc,
         hh_monthlyNetIncome = (pc_netAnnual person1Calc + pc_netAnnual person2Calc) / 12,
         hh_totalTaxes = pc_totalTax person1Calc + pc_totalTax person2Calc,
         hh_effectiveRate =
           js_mul (js_div (pc_totalTax person1Calc + pc_totalTax person2Calc)
                     (pc_gross person1Calc + pc_gross person2Calc)) 100\<rparr>,
      r_expenses = householdExpenses,
      r_ramitBreakdown = rb,
      r_summary = calculateSummaryMetrics person1Calc person2Calc householdExpenses\<rparr>"

text \<open>
  \<open>calculateScenario\<close>: \<open>null\<close> for a missing scenario; otherwise the four
  calculations run in the order of the source and the first error ends the call.
\<close>

definition calculateScenario :: "scenario option \<Rightarrow> calc_error + scenarioResult option" where
  "calculateScenario scenario =
     (case scenario of
        None \<Rightarrow> Inr None
      | Some sc \<Rightarrow>
          (case sc_income sc of
             None \<Rightarrow> Inl TypeError
           | Some inc \<Rightarrow>
               (case calculatePersonIncome (person1 inc) sc of
                  Inl e \<Rightarrow> Inl e
                | Inr person1Calc \<Rightarrow>
                    (case calculatePersonIncome (person2 inc) sc of
                       Inl e \<Rightarrow> Inl e
                     | Inr person2Calc \<Rightarrow>
                         (case calculateHouseholdExpenses (sc_expenses sc) of
                            Inl e \<Rightarrow> Inl e
                          | Inr householdExpenses \<Rightarrow>
                              (case calculateRamitBreakdown (sc_expenses sc)
                                      (pc_netAnnual person1Calc + pc_netAnnual person2Calc) of
                                 Inl e \<Rightarrow> Inl e
                               | Inr rb \<Rightarrow>
                                   Inr (Some (scenario_result person1Calc person2Calc
                                                householdExpenses rb))))))))"

section \<open>Scenario store (src/js/core/scenario-manager.js, src/js/utils/storage.js)\<close>

text \<open>
  The state of a \<open>ScenarioManager\<close>: the scenarios in memory, the name of the current
  one, the scenarios persisted by the \<open>StorageManager\<close>, whether writing to
  \<open>localStorage\<close> succeeds (a failed write is caught there and reported as
  \<open>false\<close>), and the notifications handed to the registered callbacks, in order.
\<close>

datatype store_error =
    ProtectedScenario   \<comment> \<open>\<open>throw new Error('Cannot delete baseline scenario')\<close>\<close>
  | NotFound            \<comment> \<open>\<open>throw new Error('Scenario does not exist')\<close>\<close>

datatype event = OnScenarioChange string | OnScenarioDelete string

record 'a store =
  scenarios :: "string \<rightharpoonup> 'a"
  currentScenario :: "string option"
  persisted :: "string \<rightharpoonup> 'a"
  storage_ok :: bool
  events :: "event list"

text \<open>
  \<open>this.scenarios[scenarioName]\<close> is truthy for a stored scenario and for an
  inherited name.
\<close>

definition has_scenario :: "'a store \<Rightarrow> string \<Rightarrow> bool" where
  "has_scenario st scenarioName =
     (case scenarios st scenarioName of
        Some sc \<Rightarrow> True
      | None \<Rightarrow> scenarioName \<in> set object_prototype_keys)"

definition storage_deleteScenario :: "string \<Rightarrow> 'a store \<Rightarrow> bool \<times> 'a store" where
  "storage_deleteScenario scenarioName st =
     (if storage_ok st
      then (True, st\<lparr>persisted := (persisted st)(scenarioName := None)\<rparr>)
      else (False, st))"

definition setCurrentScenario :: "string \<Rightarrow> 'a store \<Rightarrow> bool \<times> 'a store" where
  "setCurrentScenario scenarioName st =
     (if has_scenario st scenarioName
      then (True, st\<lparr>currentScenario := Some scenarioName,
                     events := events st @ [OnScenarioChange scenarioName]\<rparr>)
      else (False, st))"

text \<open>
  \<open>deleteScenario\<close> returns the error raised or the value returned, and the state
  left behind in either case.
\<close>

definition deleteScenario :: "string \<Rightarrow> 'a store \<Rightarrow> (store_error + bool) \<times> 'a store" where
  "deleteScenario scenarioName st =
     (if scenarioName = ''baseline'' then (Inl ProtectedScenario, st)
      else if \<not> has_scenario st scenarioName then (Inl NotFound, st)
      else
        (let st1 = st\<lparr>scenarios := (scenarios st)(scenarioName := None)\<rparr>;
             (deleted, st2) = storage_deleteScenario scenarioName st1
         in if deleted then
              (let st3 = (if currentScenario st2 = Some scenarioName
                          then snd (setCurrentScenario ''baseline'' st2) else st2)
               in (Inr True, st3\<lparr>events := events st3 @ [OnScenarioDelete scenarioName]\<rparr>))
            else (Inr False, st2)))"

section \<open>Notions used to state the properties\<close>

text \<open>Every expense item reachable in a category is assigned to \<open>shared\<close>.\<close>

fun all_shared_cat :: "(string \<times> node) list \<Rightarrow> bool"
  and all_shared :: "node \<Rightarrow> bool" where
  "all_shared_cat [] = True"
| "all_shared_cat ((key, v) # rest) = (all_shared v \<and> all_shared_cat rest)"
| "all_shared (Item amount assignedTo) = (assignedTo = ''shared'')"
| "all_shared (Branch cat) = all_shared_cat cat"
| "all_shared Prim = True"

text \<open>Sample data, in the shape of the built-in baseline scenario.\<close>

definition example_tree :: "(string \<times> node) list" where
  "example_tree =
     [(''housing'',
        Branch [(''rent'', Item 3500 ''shared''), (''utilities'', Item 200 ''shared'')]),
      (''retirement'', Item 1000 ''shared'')]"

definition example_categories :: ramitCategories where
  "example_categories =
     \<lparr>fixedCosts = Some example_tree,
      investments = Some [(''brokerage'', Item 500 ''shared'')],
      savings = Some [], guiltFreeSpending = Some []\<rparr>"

definition example_household :: household where
  "example_household =
     \<lparr>h_location = Some ''CA'', h_filingStatus = Some ''marriedFilingJointly''\<rparr>"

definition zero_person :: person where
  "zero_person =
     \<lparr>p_name = Some ''Partner 1'', p_salary = Some 0, p_bonus = Some 0,
      p_otherIncome = Some 0, p_payFrequency = Some ''biweekly'',
      p_preTexDeductions = Some [(''retirement401k'', 0)]\<rparr>"

definition zero_income_scenario :: scenario where
  "zero_income_scenario =
     \<lparr>sc_household = Some example_household,
      sc_income = Some \<lparr>person1 = Some zero_person, person2 = Some zero_person\<rparr>,
      sc_expenses = Some (Some example_categories)\<rparr>"

definition no_income_scenario :: scenario where
  "no_income_scenario =
     \<lparr>sc_household = Some example_household, sc_income = None,
      sc_expenses = Some (Some example_categories)\<rparr>"

definition no_expenses_scenario :: scenario where
  "no_expenses_scenario =
     \<lparr>sc_household = Some example_household,
      sc_income = Some \<lparr>person1 = Some zero_person, person2 = None\<rparr>,
      sc_expenses = None\<rparr>"

section \<open>Properties of the binary64 rounding\<close>

text \<open>\<open>bits\<close> counts the binary digits.\<close>

lemma bits_bounds:
  "0 < n \<Longrightarrow> 2 ^ nat (bits n - 1) \<le> n \<and> n < 2 ^ nat (bits n) \<and> 0 < bits n"
proof (induction n rule: bits.induct)
  case (1 n)
  show ?case
  proof (cases "n = 1")
    case True
    have "bits 1 = 1" by (simp add: bits.simps[of 1] bits.simps[of 0])
    with True show ?thesis by simp
  next
    case False
    with 1 have pos: "0 < n div 2" by simp
    have ih: "2 ^ nat (bits (n div 2) - 1) \<le> n div 2" "n div 2 < 2 ^ nat (bits (n div 2))"
        "0 < bits (n div 2)"
      using "1.IH" pos "1.prems" by simp_all
    have b: "bits n = 1 + bits (n div 2)"
      using "1.prems" by (simp add: bits.simps[of n])
    have e1: "nat (bits n - 1) = Suc (nat (bits (n div 2) - 1))"
      using b ih(3) by simp
    have e2: "nat (bits n) = Suc (nat (bits (n div 2)))"
      using b ih(3) by simp
    have "2 * (n div 2) \<le> n" by simp
    with ih(1) have lo: "2 ^ nat (bits n - 1) \<le> n" unfolding e1 by simp
    have "n < 2 * (n div 2) + 2" by simp
    with ih(2) have hi: "n < 2 ^ nat (bits n)" unfolding e2 by simp
    from lo hi b ih(3) show ?thesis by simp
  qed
qed

lemma bits_powi:
  assumes "0 < n"
  shows "2 powi (bits n - 1) \<le> (of_int n :: rat)" and "(of_int n :: rat) < 2 powi bits n"
proof -
  from bits_bounds[OF assms] have
    lo: "2 ^ nat (bits n - 1) \<le> n" and hi: "n < 2 ^ nat (bits n)" and pos: "0 < bits n"
    by simp_all
  have "(2::rat) powi (bits n - 1) = 2 ^ nat (bits n - 1)"
    using pos by (simp add: power_int_def)
  also have "\<dots> = of_int (2 ^ nat (bits n - 1))" by simp
  also have "\<dots> \<le> of_int n" using lo by (simp only: of_int_le_iff)
  finally show "2 powi (bits n - 1) \<le> (of_int n :: rat)" .
  have "(of_int n :: rat) < of_int (2 ^ nat (bits n))" using hi by (simp only: of_int_less_iff)
  also have "\<dots> = 2 ^ nat (bits n)" by simp
  also have "\<dots> = 2 powi bits n" using pos by (simp add: power_int_def)
  finally show "(of_int n :: rat) < 2 powi bits n" .
qed

text \<open>\<open>ilog2\<close> is the binary exponent.\<close>

lemma ilog2_bounds:
  assumes "0 < x"
  shows "2 powi ilog2 x \<le> x \<and> x < 2 powi (ilog2 x + 1)"
proof -
  obtain p q where pq: "quotient_of x = (p, q)" by (cases "quotient_of x")
  then have q: "0 < q" and x: "x = of_int p / of_int q"
    using quotient_of_denom_pos quotient_of_div by blast+
  have p: "0 < p" using assms q x by (simp add: zero_less_divide_iff)
  let ?k = "bits p - bits q"
  have qpos: "(0::rat) < of_int q" using q by simp
  have upper: "x < 2 powi (?k + 1)"
  proof -
    have "of_int p < (2::rat) powi bits p" using bits_powi(2)[OF p] .
    moreover have "(2::rat) powi (bits q - 1) \<le> of_int q" using bits_powi(1)[OF q] .
    moreover have "(0::rat) < 2 powi (bits q - 1)" by simp
    moreover have "(0::rat) \<le> of_int p" using p by simp
    ultimately have "of_int p / of_int q < (2::rat) powi bits p / 2 powi (bits q - 1)"
      by (intro frac_less)
    also have "\<dots> = 2 powi (bits p - (bits q - 1))" by (simp add: power_int_diff)
    also have "bits p - (bits q - 1) = ?k + 1" by simp
    finally show ?thesis using x by simp
  qed
  have lower: "2 powi (?k - 1) < x"
  proof -
    have "(2::rat) powi (bits p - 1) \<le> of_int p" using bits_powi(1)[OF p] .
    moreover have "of_int q < (2::rat) powi bits q" using bits_powi(2)[OF q] .
    moreover have "(0::rat) < 2 powi (bits p - 1)" by simp
    ultimately have "(2::rat) powi (bits p - 1) / 2 powi bits q < of_int p / of_int q"
      using qpos by (intro frac_less2)
    moreover have "(2::rat) powi (bits p - 1) / 2 powi bits q = 2 powi (bits p - 1 - bits q)"
      by (simp add: power_int_diff)
    moreover have "bits p - 1 - bits q = ?k - 1" by simp
    ultimately show ?thesis using x by simp
  qed
  show ?thesis
  proof (cases "2 powi ?k \<le> x")
    case True
    then have "ilog2 x = ?k" by (simp add: ilog2_def pq)
    with True upper show ?thesis by simp
  next
    case False
    then have "ilog2 x = ?k - 1" by (simp add: ilog2_def pq)
    with False lower show ?thesis by (simp add: less_imp_le)
  qed
qed

text \<open>
  \<open>nearest x\<close> is a multiple of the spacing of the doubles around \<open>x\<close> and lies
  within half that spacing of \<open>x\<close>.
\<close>

lemma round_half_even_close: "\<bar>of_int (round_half_even n) - n\<bar> \<le> 1 / 2"
proof -
  have "of_int \<lfloor>n\<rfloor> \<le> n" "n < of_int \<lfloor>n\<rfloor> + 1" by linarith+
  then show ?thesis
    unfolding round_half_even_def Let_def by (auto simp: abs_le_iff)
qed

lemma nearest_close:
  assumes "x \<noteq> 0"
  shows "\<exists>m. nearest x = of_int m * 2 powi (max (ilog2 \<bar>x\<bar> - 52) (- 1074)) \<and>
             \<bar>nearest x - x\<bar> \<le> 2 powi (max (ilog2 \<bar>x\<bar> - 52) (- 1074)) / 2"
proof -
  let ?q = "(2::rat) powi (max (ilog2 \<bar>x\<bar> - 52) (- 1074))"
  let ?m = "round_half_even (x / ?q)"
  have q: "0 < ?q" by simp
  have n: "nearest x = of_int ?m * ?q" using assms by (simp add: nearest_def Let_def)
  have "nearest x - x = (of_int ?m - x / ?q) * ?q"
    using q n by (simp add: field_simps)
  then have "\<bar>nearest x - x\<bar> = \<bar>of_int ?m - x / ?q\<bar> * ?q"
    using q by (simp add: abs_mult)
  also have "\<dots> \<le> 1 / 2 * ?q"
    using round_half_even_close[of "x / ?q"] q by (intro mult_right_mono) simp_all
  finally have "\<bar>nearest x - x\<bar> \<le> ?q / 2" by simp
  with n show ?thesis by blast
qed

text \<open>The double nearest to 0.1, and two ties between neighbouring doubles.\<close>

lemma fl_examples:
  "fl 0.1 = Num (3602879701896397 / 36028797018963968)"
  "fl 9007199254740993 = Num 9007199254740992"
  "fl 9007199254740995 = Num 9007199254740996"
  by code_simp+

section \<open>Properties of the tax calculator\<close>

subsection \<open>Auxiliary facts\<close>

lemma round_cents_mono: "x \<le> y \<Longrightarrow> round_cents x \<le> round_cents y"
  unfolding round_cents_def Math_round_def
  by (simp add: divide_right_mono floor_mono)

text \<open>One pass of the bracket loop keeps the order of two accumulators.\<close>

lemma bracket_step_mono:
  assumes ok: "0 \<le> rate b" "\<And>m. bmax b = Fin m \<Longrightarrow> bmin b \<le> m"
    and xy: "x \<le> y" and tt: "t \<le> (t'::rat)"
  shows "(if x > bmin b then t + (Math_min x (bmax b) - bmin b) * rate b else t)
        \<le> (if y > bmin b then t' + (Math_min y (bmax b) - bmin b) * rate b else t')"
proof -
  have le: "Math_min x (bmax b) \<le> Math_min y (bmax b)"
    using xy by (cases "bmax b") (auto simp: min_def)
  have nonneg: "bmin b < y \<Longrightarrow> 0 \<le> Math_min y (bmax b) - bmin b"
    using ok(2) by (cases "bmax b") (auto simp: min_def)
  show ?thesis
  proof (cases "bmin b < x")
    case True
    then have "bmin b < y" using xy by simp
    moreover have "(Math_min x (bmax b) - bmin b) * rate b
                     \<le> (Math_min y (bmax b) - bmin b) * rate b"
      using le ok(1) by (simp add: mult_right_mono)
    ultimately show ?thesis using True tt by simp
  next
    case below: False
    show ?thesis
    proof (cases "bmin b < y")
      case True
      have "0 \<le> (Math_min y (bmax b) - bmin b) * rate b"
        using nonneg[OF True] ok(1) by (rule mult_nonneg_nonneg)
      then show ?thesis using below True tt by simp
    next
      case False
      then show ?thesis using below tt by simp
    qed
  qed
qed

lemma bracket_loop_mono:
  assumes "list_all (\<lambda>b. 0 \<le> rate b \<and> (\<forall>m. bmax b = Fin m \<longrightarrow> bmin b \<le> m)) bs"
    and "x \<le> y" and "t \<le> t'"
  shows "bracket_loop x bs t \<le> bracket_loop y bs t'"
  using assms
proof (induction bs arbitrary: t t')
  case Nil
  then show ?case by simp
next
  case (Cons b bs)
  have ok: "0 \<le> rate b" "\<And>m. bmax b = Fin m \<Longrightarrow> bmin b \<le> m"
    using Cons.prems(1) by auto
  have rest: "list_all (\<lambda>b. 0 \<le> rate b \<and> (\<forall>m. bmax b = Fin m \<longrightarrow> bmin b \<le> m)) bs"
    using Cons.prems(1) by simp
  from Cons.IH[OF rest Cons.prems(2) bracket_step_mono[OF ok Cons.prems(2,3)]]
  show ?case by simp
qed

text \<open>The four federal tables have non-negative rates and ordered edges.\<close>

lemma federalBrackets_known:
  "s \<in> {''single'', ''marriedFilingJointly'', ''marriedFilingSeparately'', ''headOfHousehold''}
   \<Longrightarrow> \<exists>bs. federalBrackets s = Own bs \<and>
          list_all (\<lambda>b. 0 \<le> rate b \<and> (\<forall>m. bmax b = Fin m \<longrightarrow> bmin b \<le> m)) bs"
  unfolding federalBrackets_def federalBrackets_table_def js_lookup_def
  by (auto simp: mk_def)

lemma federalBrackets_unknown:
  "s \<notin> {''single'', ''marriedFilingJointly'', ''marriedFilingSeparately'', ''headOfHousehold''}
   \<Longrightarrow> federalBrackets s = Inherited \<or> federalBrackets s = Undefined"
  unfolding federalBrackets_def federalBrackets_table_def js_lookup_def
  by auto

subsection \<open>Reconciliation of the tax result\<close>

text \<open>
  Claim C1. For every gross income, every total of pre-tax deductions, every filing
  status of the bracket table and every state code, \<open>calculateAllTaxes\<close> returns a
  result, and in it net income plus total tax plus pre-tax deductions is the gross
  income, exactly.
\<close>

theorem calculateAllTaxes_reconciles:
  assumes "filingStatus \<in>
     {''single'', ''marriedFilingJointly'', ''marriedFilingSeparately'', ''headOfHousehold''}"
  shows "\<exists>r. calculateAllTaxes gross preTex (Some filingStatus) state = Inr r \<and>
             grossIncome r = gross \<and> preTexDeductions r = preTex \<and>
             netIncome r + totalTax r + preTexDeductions r = grossIncome r"
proof -
  from federalBrackets_known[OF assms] obtain bs where "federalBrackets filingStatus = Own bs"
    by blast
  then show ?thesis
    by (simp add: calculateAllTaxes_def calculateFederalTax_def calculateMarginalRate_def
          Let_def)
qed

theorem calculateAllTaxes_reconciles_witness:
  "''marriedFilingJointly'' \<in>
     {''single'', ''marriedFilingJointly'', ''marriedFilingSeparately'', ''headOfHousehold''}
   \<and> (\<exists>r. calculateAllTaxes 137000 25900 (Some ''marriedFilingJointly'') ''CA'' = Inr r \<and>
           grossIncome r = 137000 \<and> preTexDeductions r = 25900 \<and>
           netIncome r + totalTax r + preTexDeductions r = grossIncome r)"
  using calculateAllTaxes_reconciles[of "''marriedFilingJointly''" 137000 25900 "''CA''"]
  by simp

subsection \<open>FICA\<close>

text \<open>Rounding to binary64 keeps the sign.\<close>

lemma round_half_even_nonneg: "0 \<le> n \<Longrightarrow> 0 \<le> round_half_even n"
  unfolding round_half_even_def Let_def
  by (auto simp: zero_le_floor intro: add_nonneg_nonneg)

lemma round_half_even_nonpos:
  assumes "n \<le> 0"
  shows "round_half_even n \<le> 0"
proof -
  have f: "\<lfloor>n\<rfloor> \<le> 0" using assms by (simp add: floor_le_zero)
  have "\<not> n - of_int \<lfloor>n\<rfloor> < 1 / 2 \<Longrightarrow> \<lfloor>n\<rfloor> + 1 \<le> 0"
  proof -
    assume "\<not> n - of_int \<lfloor>n\<rfloor> < 1 / 2"
    then have "of_int \<lfloor>n\<rfloor> < (0::rat)" using assms by linarith
    then have "\<lfloor>n\<rfloor> < 0" by simp
    then show ?thesis by linarith
  qed
  then show ?thesis
    unfolding round_half_even_def Let_def using f by auto
qed

lemma nearest_nonneg: "0 \<le> x \<Longrightarrow> 0 \<le> nearest x"
  unfolding nearest_def Let_def
  by (auto intro!: mult_nonneg_nonneg round_half_even_nonneg divide_nonneg_nonneg)

lemma nearest_nonpos: "x \<le> 0 \<Longrightarrow> nearest x \<le> 0"
  unfolding nearest_def Let_def
  by (auto intro!: mult_nonpos_nonneg round_half_even_nonpos divide_nonpos_nonneg)

lemma fl_of_pos: "0 < z \<Longrightarrow> fl z = PosInfinity \<or> (\<exists>y\<ge>0. fl z = Num y)"
  using nearest_nonneg[of z] by (auto simp: fl_def Let_def signed_inf_def)

lemma fl_of_nonpos: "z \<le> 0 \<Longrightarrow> fl z = NegInfinity \<or> (\<exists>y\<le>0. fl z = Num y)"
  using nearest_nonpos[of z] by (auto simp: fl_def Let_def signed_inf_def)

lemma fl_0: "fl 0 = Num 0"
  by (simp add: fl_def nearest_def)

text \<open>The integer literals of \<open>calculateFICA\<close> are doubles.\<close>

lemma lit_values:
  "lit 0 = Num 0" "lit 100 = Num 100" "lit 200000 = Num 200000" "lit 176100 = Num 176100"
  by code_simp+

lemma lit_additionalMedicareRate: "\<exists>c. lit additionalMedicareRate = Num c"
proof -
  have "lit additionalMedicareRate = Num (nearest additionalMedicareRate)" by code_simp
  then show ?thesis by blast
qed

lemma Math_max_d_zero_pos:
  "v = PosInfinity \<or> (\<exists>y\<ge>0. v = Num y) \<Longrightarrow> Math_max_d (Num 0) v = v"
  by (auto simp: Math_max_d_def)

lemma Math_max_d_zero_nonpos:
  "v = NegInfinity \<or> (\<exists>y\<le>0. v = Num y) \<Longrightarrow> Math_max_d (Num 0) v = Num 0"
  by (auto simp: Math_max_d_def)

text \<open>
  The conditional of the source is \<open>max(0, grossWages - 200000) * 0.009\<close>.
\<close>

lemma additionalMedicareTax_max_Num:
  "(if d_less (Num 200000) (Num x)
    then d_mul (d_sub (Num x) (Num 200000)) (Num c) else Num 0)
   = d_mul (Math_max_d (Num 0) (d_sub (Num x) (Num 200000))) (Num c)"
proof -
  have sub: "d_sub (Num x) (Num 200000) = fl (x - 200000)"
    by (simp add: d_sub_def d_add_def)
  show ?thesis
  proof (cases "200000 < x")
    case True
    then have "Math_max_d (Num 0) (fl (x - 200000)) = fl (x - 200000)"
      by (intro Math_max_d_zero_pos fl_of_pos) simp
    then show ?thesis
      unfolding sub using True by simp
  next
    case False
    then have "Math_max_d (Num 0) (fl (x - 200000)) = Num 0"
      by (intro Math_max_d_zero_nonpos fl_of_nonpos) simp
    then show ?thesis
      unfolding sub using False by (simp add: d_mul_def fl_0)
  qed
qed

lemma additionalMedicareTax_max:
  "(if d_less (lit 200000) (Num x)
    then d_mul (d_sub (Num x) (lit 200000)) (lit additionalMedicareRate) else lit 0)
   = d_mul (Math_max_d (lit 0) (d_sub (Num x) (lit 200000))) (lit additionalMedicareRate)"
proof -
  obtain c where c: "lit additionalMedicareRate = Num c"
    using lit_additionalMedicareRate by blast
  show ?thesis
    unfolding c lit_values by (rule additionalMedicareTax_max_Num)
qed

lemma socialSecurity_capped:
  "round_cents_d (d_mul (Num 176100) (lit socialSecurityRate)) = lit 10918.2"
  by code_simp

lemma round_cents_d_zero: "round_cents_d (Num 0) = Num 0"
  by code_simp

text \<open>
  Claim C4, as the code has it. For every \<open>grossWages\<close>, \<open>calculateFICA\<close> returns
  \<open>socialSecurity = min(grossWages, 176100) * 0.062\<close>,
  \<open>medicare = grossWages * 0.0145\<close> and
  \<open>additionalMedicare = max(0, grossWages - 200000) * 0.009\<close>, each product taken
  in binary64 and rounded to the cent on its own by \<open>Math.round(x * 100) / 100\<close>,
  and \<open>total\<close> is the binary64 sum of the three amounts before their rounding,
  rounded to the cent once by the same expression. From the wage base on
  \<open>socialSecurity\<close> is 10918.20, and up to 200000 \<open>additionalMedicare\<close> is 0.
\<close>

theorem calculateFICA_d_components:
  "socialSecurity_d (calculateFICA_d (Num x))
     = round_cents_d (d_mul (Math_min_d (Num x) (lit 176100)) (lit 0.062)) \<and>
   medicare_d (calculateFICA_d (Num x)) = round_cents_d (d_mul (Num x) (lit 0.0145)) \<and>
   additionalMedicare_d (calculateFICA_d (Num x))
     = round_cents_d (d_mul (Math_max_d (lit 0) (d_sub (Num x) (lit 200000))) (lit 0.009)) \<and>
   total_d (calculateFICA_d (Num x))
     = round_cents_d
         (d_add (d_add (d_mul (Math_min_d (Num x) (lit 176100)) (lit 0.062))
                       (d_mul (Num x) (lit 0.0145)))
                (d_mul (Math_max_d (lit 0) (d_sub (Num x) (lit 200000))) (lit 0.009))) \<and>
   (176100 \<le> x \<longrightarrow> socialSecurity_d (calculateFICA_d (Num x)) = lit 10918.2) \<and>
   (x \<le> 200000 \<longrightarrow> additionalMedicare_d (calculateFICA_d (Num x)) = lit 0)"
proof (intro conjI impI)
  show "socialSecurity_d (calculateFICA_d (Num x))
          = round_cents_d (d_mul (Math_min_d (Num x) (lit 176100)) (lit 0.062))"
    by (simp add: calculateFICA_d_def Let_def socialSecurityWageBase_def
          socialSecurityRate_def)
next
  show "medicare_d (calculateFICA_d (Num x)) = round_cents_d (d_mul (Num x) (lit 0.0145))"
    by (simp add: calculateFICA_d_def Let_def medicareRate_def)
next
  have "additionalMedicare_d (calculateFICA_d (Num x))
          = round_cents_d
              (d_mul (Math_max_d (lit 0) (d_sub (Num x) (lit 200000)))
                 (lit additionalMedicareRate))"
    unfolding calculateFICA_d_def Let_def additionalMedicareTax_max by simp
  then show "additionalMedicare_d (calculateFICA_d (Num x))
          = round_cents_d
              (d_mul (Math_max_d (lit 0) (d_sub (Num x) (lit 200000))) (lit 0.009))"
    by (simp add: additionalMedicareRate_def)
next
  have "total_d (calculateFICA_d (Num x))
          = round_cents_d
              (d_add (d_add (d_mul (Math_min_d (Num x) (lit socialSecurityWageBase))
                               (lit socialSecurityRate))
                            (d_mul (Num x) (lit medicareRate)))
                     (d_mul (Math_max_d (lit 0) (d_sub (Num x) (lit 200000)))
                        (lit additionalMedicareRate)))"
    unfolding calculateFICA_d_def Let_def additionalMedicareTax_max by simp
  then show "total_d (calculateFICA_d (Num x))
     = round_cents_d
         (d_add (d_add (d_mul (Math_min_d (Num x) (lit 176100)) (lit 0.062))
                       (d_mul (Num x) (lit 0.0145)))
                (d_mul (Math_max_d (lit 0) (d_sub (Num x) (lit 200000))) (lit 0.009)))"
    by (simp add: socialSecurityWageBase_def socialSecurityRate_def medicareRate_def
          additionalMedicareRate_def)
next
  assume "176100 \<le> x"
  then have "Math_min_d (Num x) (lit socialSecurityWageBase) = Num 176100"
    unfolding socialSecurityWageBase_def lit_values by (auto simp: Math_min_d_def)
  then have "socialSecurity_d (calculateFICA_d (Num x))
               = round_cents_d (d_mul (Num 176100) (lit socialSecurityRate))"
    by (simp add: calculateFICA_d_def Let_def)
  then show "socialSecurity_d (calculateFICA_d (Num x)) = lit 10918.2"
    unfolding socialSecurity_capped .
next
  assume "x \<le> 200000"
  then have "\<not> d_less (lit 200000) (Num x)"
    unfolding lit_values by simp
  then have "additionalMedicare_d (calculateFICA_d (Num x)) = round_cents_d (lit 0)"
    by (simp add: calculateFICA_d_def Let_def)
  then show "additionalMedicare_d (calculateFICA_d (Num x)) = lit 0"
    unfolding lit_values round_cents_d_zero .
qed

theorem calculateFICA_d_components_witness:
  "(176100::rat) \<le> 250000 \<and>
   socialSecurity_d (calculateFICA_d (Num 250000)) = lit 10918.2 \<and>
   (30050::rat) \<le> 200000 \<and>
   additionalMedicare_d (calculateFICA_d (Num 30050)) = lit 0"
proof -
  have a: "(176100::rat) \<le> 250000" by simp
  have b: "(30050::rat) \<le> 200000" by simp
  show ?thesis
    using a b calculateFICA_d_components[of 250000] calculateFICA_d_components[of 30050]
    by blast
qed

text \<open>
  The total is not the sum of the three rounded components: for wages of 60007 the
  components are 3720.43, 870.10 and 0, whose sum is 4590.53, and the total is 4590.54.
\<close>

lemma calculateFICA_d_60007:
  "calculateFICA_d (Num 60007)
     = \<lparr>socialSecurity_d = lit 3720.43, medicare_d = lit 870.10,
        additionalMedicare_d = lit 0, total_d = lit 4590.54\<rparr>"
  by code_simp

lemma rounded_components_60007:
  "round_cents_d (d_add (d_add (lit 3720.43) (lit 870.10)) (lit 0)) = lit 4590.53"
  by code_simp

lemma cents_differ: "lit 4590.54 \<noteq> lit 4590.53"
  by code_simp

theorem calculateFICA_d_total_counterexample:
  "total_d (calculateFICA_d (Num 60007)) \<noteq>
     round_cents_d
       (d_add (d_add (socialSecurity_d (calculateFICA_d (Num 60007)))
                     (medicare_d (calculateFICA_d (Num 60007))))
              (additionalMedicare_d (calculateFICA_d (Num 60007))))"
proof -
  have t: "total_d (calculateFICA_d (Num 60007)) = lit 4590.54"
    and s: "socialSecurity_d (calculateFICA_d (Num 60007)) = lit 3720.43"
    and m: "medicare_d (calculateFICA_d (Num 60007)) = lit 870.10"
    and a: "additionalMedicare_d (calculateFICA_d (Num 60007)) = lit 0"
    unfolding calculateFICA_d_60007 by simp_all
  show ?thesis
    unfolding t s m a rounded_components_60007 by (rule cents_differ)
qed

text \<open>
  At an exact half-cent the binary64 products decide the cent: the total is 2298.82
  for wages of 30050 and 20.65 for wages of 270, and the additional Medicare tax is
  0.13 for wages of 200015.
\<close>

lemma calculateFICA_d_half_cents:
  "total_d (calculateFICA_d (Num 30050)) = lit 2298.82"
  "total_d (calculateFICA_d (Num 270)) = lit 20.65"
  "additionalMedicare_d (calculateFICA_d (Num 200015)) = lit 0.13"
  by code_simp+

subsection \<open>Federal tax\<close>

text \<open>
  Claim C5. For every filing status of the bracket table and all taxable incomes
  \<open>0 \<le> x \<le> y\<close>, \<open>calculateFederalTax\<close> returns for both, and the tax at \<open>x\<close> is at
  most the tax at \<open>y\<close>.
\<close>

theorem calculateFederalTax_mono:
  assumes "status \<in>
     {''single'', ''marriedFilingJointly'', ''marriedFilingSeparately'', ''headOfHousehold''}"
    and "0 \<le> x" and "x \<le> y"
  shows "\<exists>tx ty. calculateFederalTax x (Some status) = Inr tx \<and>
                  calculateFederalTax y (Some status) = Inr ty \<and> tx \<le> ty"
proof -
  from federalBrackets_known[OF assms(1)] obtain bs where
    bs: "federalBrackets status = Own bs"
        "list_all (\<lambda>b. 0 \<le> rate b \<and> (\<forall>m. bmax b = Fin m \<longrightarrow> bmin b \<le> m)) bs"
    by blast
  have "round_cents (bracket_loop x bs 0) \<le> round_cents (bracket_loop y bs 0)"
    by (rule round_cents_mono) (rule bracket_loop_mono[OF bs(2) assms(3)], simp)
  with bs(1) show ?thesis by (simp add: calculateFederalTax_def)
qed

theorem calculateFederalTax_mono_witness:
  "''single'' \<in>
     {''single'', ''marriedFilingJointly'', ''marriedFilingSeparately'', ''headOfHousehold''}
   \<and> (0::rat) \<le> 50000 \<and> (50000::rat) \<le> 60000
   \<and> (\<exists>tx ty. calculateFederalTax 50000 (Some ''single'') = Inr tx \<and>
                calculateFederalTax 60000 (Some ''single'') = Inr ty \<and> tx \<le> ty)"
  using calculateFederalTax_mono[of "''single''" 50000 60000] by simp

subsection \<open>State tax\<close>

text \<open>
  The default of 5 percent applies to the state codes that are neither keys of the
  table nor inherited names; the other branches follow the rule found.
\<close>

lemma stateTaxRates_Undefined:
  "stateTaxRates state = Undefined \<longleftrightarrow>
     state \<notin> fst ` set stateTaxRates_table \<and> state \<notin> set object_prototype_keys"
proof (cases "map_of stateTaxRates_table state")
  case None
  then have "state \<notin> fst ` set stateTaxRates_table"
    by (simp add: map_of_eq_None_iff)
  with None show ?thesis
    unfolding stateTaxRates_def js_lookup_def by simp
next
  case (Some rule)
  then have "(state, rule) \<in> set stateTaxRates_table" by (rule map_of_SomeD)
  then have "state \<in> fst ` set stateTaxRates_table" by force
  with Some show ?thesis
    unfolding stateTaxRates_def js_lookup_def by simp
qed

lemma calculateStateTax_d_default:
  assumes "state \<notin> fst ` set stateTaxRates_table"
    and "state \<notin> set object_prototype_keys"
  shows "calculateStateTax_d ti state = d_mul ti (lit 0.05)"
    and "calculateStateTax ti' state = ti' * 0.05"
  using assms stateTaxRates_Undefined[of state]
  by (simp_all add: calculateStateTax_d_def calculateStateTax_def)

lemma calculateStateTax_d_values:
  "calculateStateTax_d (Num 50000) ''TX'' = Num 0"
  "calculateStateTax_d (Num 50000) ''CO'' = Num 2200"
  "calculateStateTax_d (Num 50000) ''CA'' = lit 1664.41"
  "calculateStateTax_d (Num 81100) ''CA'' = lit 4295.77"
  by code_simp+

text \<open>
  Claim C6 at a state code that is not in the table. For the state \<open>constructor\<close>
  and a taxable income of 50000, \<open>calculateStateTax\<close> returns 0, where the claim
  asks for \<open>50000 * 0.05 = 2500\<close>, the value returned for \<open>ZZ\<close>:
  \<open>this.stateTaxRates['constructor']\<close> is the function every object inherits, so
  the test \<open>!stateInfo\<close> above which the source says \<open>Default to 5% if state not
  found\<close> does not hold, and the \<open>switch\<close> ends in \<open>default: return 0\<close>.
\<close>

theorem calculateStateTax_inherited_name:
  "calculateStateTax_d (Num 50000) ''constructor'' = Num 0 \<and>
   calculateStateTax 50000 ''constructor'' = 0 \<and>
   calculateStateTax_d (Num 50000) ''ZZ'' = Num 2500 \<and>
   calculateStateTax 50000 ''ZZ'' = 2500"
  by code_simp

subsection \<open>Marginal rate\<close>

text \<open>
  Claim C10. For every filing status key that is not in the federal bracket table,
  every taxable income and every state code, \<open>calculateMarginalRate\<close> raises an error
  (a TypeError) and returns no percentage; in particular it never reports a federal
  marginal rate of 0.
\<close>

theorem calculateMarginalRate_unknown_status:
  assumes "filingStatus \<notin>
     {''single'', ''marriedFilingJointly'', ''marriedFilingSeparately'', ''headOfHousehold''}"
  shows "calculateMarginalRate ti (Some filingStatus) state = Inl TypeError \<and>
         (\<forall>r. calculateMarginalRate ti (Some filingStatus) state \<noteq> Inr r)"
  using federalBrackets_unknown[OF assms] by (auto simp: calculateMarginalRate_def)

theorem calculateMarginalRate_unknown_status_witness:
  "''married'' \<notin>
     {''single'', ''marriedFilingJointly'', ''marriedFilingSeparately'', ''headOfHousehold''}
   \<and> calculateMarginalRate 50000 (Some ''married'') ''CA'' = Inl TypeError
   \<and> (\<forall>r. calculateMarginalRate 50000 (Some ''married'') ''CA'' \<noteq> Inr r)"
  using calculateMarginalRate_unknown_status[of "''married''" 50000 "''CA''"] by simp

section \<open>Properties of the household calculator\<close>

subsection \<open>Pay per paycheck\<close>

text \<open>
  Claim C9. The annual net income is divided by 52 for weekly, 26 for biweekly, 24 for
  semimonthly and 12 for monthly pay, and by 26 for every other value of the pay
  frequency, a missing one included.
\<close>

theorem calculateBiweeklyPay_divisors:
  "calculateBiweeklyPay annualNet (Some ''weekly'') = annualNet / 52 \<and>
   calculateBiweeklyPay annualNet (Some ''biweekly'') = annualNet / 26 \<and>
   calculateBiweeklyPay annualNet (Some ''semimonthly'') = annualNet / 24 \<and>
   calculateBiweeklyPay annualNet (Some ''monthly'') = annualNet / 12 \<and>
   (payFrequency \<notin> {Some ''weekly'', Some ''biweekly'', Some ''semimonthly'', Some ''monthly''}
      \<longrightarrow> calculateBiweeklyPay annualNet payFrequency = annualNet / 26)"
  by (simp add: calculateBiweeklyPay_def)

theorem calculateBiweeklyPay_divisors_witness:
  "Some ''quarterly'' \<notin>
     {Some ''weekly'', Some ''biweekly'', Some ''semimonthly'', Some ''monthly''}
   \<and> calculateBiweeklyPay 52000 (Some ''quarterly'') = 2000
   \<and> calculateBiweeklyPay 52000 (Some ''weekly'') = 1000"
  using calculateBiweeklyPay_divisors[of 52000 "Some ''quarterly''"] by simp

subsection \<open>Category totals\<close>

text \<open>Adding into a running total is adding to the total of a fresh traversal.\<close>

lemma traverse_shift_all:
  "\<forall>t. traverseCategory q cat t = t + traverseCategory q cat 0"
  "\<forall>t. visit q v t = t + visit q v 0"
proof (induction cat and v rule: all_shared_cat_all_shared.induct)
  case 1
  show ?case by simp
next
  case (2 key v rest)
  show ?case
  proof
    fix t
    have A: "traverseCategory q rest (visit q v t) = visit q v t + traverseCategory q rest 0"
      using 2(2) by blast
    have B: "visit q v t = t + visit q v 0"
      using 2(1) by blast
    have C: "traverseCategory q rest (visit q v 0) = visit q v 0 + traverseCategory q rest 0"
      using 2(2) by blast
    have "traverseCategory q ((key, v) # rest) t = traverseCategory q rest (visit q v t)"
      by (simp only: traverseCategory.simps)
    also have "\<dots> = t + (visit q v 0 + traverseCategory q rest 0)"
      unfolding A unfolding B by (simp only: add.assoc)
    also have "visit q v 0 + traverseCategory q rest 0 = traverseCategory q ((key, v) # rest) 0"
      unfolding traverseCategory.simps C ..
    finally show "traverseCategory q ((key, v) # rest) t
                    = t + traverseCategory q ((key, v) # rest) 0" .
  qed
next
  case (3 amount assignedTo)
  show ?case by (simp add: processItem_def)
next
  case (4 cat)
  show ?case unfolding visit.simps by (rule 4)
next
  case 5
  show ?case by simp
qed

lemma traverse_shift:
  "traverseCategory q cat t = t + traverseCategory q cat 0"
  using traverse_shift_all(1) by blast

lemma shared_half:
  assumes "person \<noteq> []" "person \<noteq> ''shared''"
  shows "all_shared_cat cat \<Longrightarrow>
           traverseCategory (Some person) cat 0 = traverseCategory None cat 0 / 2"
    and "all_shared v \<Longrightarrow> visit (Some person) v 0 = visit None v 0 / 2"
proof (induction cat and v rule: all_shared_cat_all_shared.induct)
  case 1
  then show ?case by simp
next
  case (2 key v rest)
  have "traverseCategory (Some person) ((key, v) # rest) 0
          = visit (Some person) v 0 + traverseCategory (Some person) rest 0"
    using traverse_shift[of "Some person" rest "visit (Some person) v 0"] by simp
  also have "\<dots> = visit None v 0 / 2 + traverseCategory None rest 0 / 2"
    using 2 by simp
  also have "\<dots> = traverseCategory None ((key, v) # rest) 0 / 2"
    using traverse_shift[of None rest "visit None v 0"] by (simp add: add_divide_distrib)
  finally show ?case .
next
  case (3 amount assignedTo)
  then show ?case using assms by (auto simp: processItem_def no_person_def)
next
  case (4 cat)
  then show ?case by simp
next
  case 5
  then show ?case by simp
qed

text \<open>
  Claim C7. For every nested expense tree in which every item is assigned to
  \<open>shared\<close>, and for every person filter, \<open>calculateCategoryTotal\<close> with the filter
  returns exactly half of what it returns without a filter. A person filter is a
  non-empty name other than the tag \<open>shared\<close>: the code reads the empty string as no
  filter, and compares the filter with \<open>assignedTo\<close> before it looks for \<open>shared\<close>.
\<close>

theorem calculateCategoryTotal_shared_half:
  assumes "all_shared_cat cat" and "person \<noteq> []" and "person \<noteq> ''shared''"
  shows "calculateCategoryTotal (Some cat) (Some person)
           = calculateCategoryTotal (Some cat) None / 2"
  using shared_half(1)[OF assms(2,3) assms(1)] by (simp add: calculateCategoryTotal_def)

theorem calculateCategoryTotal_shared_half_witness:
  "all_shared_cat example_tree \<and> ''person1'' \<noteq> [] \<and> ''person1'' \<noteq> ''shared'' \<and>
   calculateCategoryTotal (Some example_tree) (Some ''person1'') = 2350 \<and>
   calculateCategoryTotal (Some example_tree) None = 4700"
proof -
  have a: "all_shared_cat example_tree" by (simp add: example_tree_def)
  have n: "calculateCategoryTotal (Some example_tree) None = 4700"
    by (simp add: example_tree_def calculateCategoryTotal_def processItem_def no_person_def)
  from calculateCategoryTotal_shared_half[OF a, of "''person1''"] a n show ?thesis by simp
qed

subsection \<open>Scenarios with missing parts\<close>

lemma calculateHouseholdExpenses_present:
  "\<exists>ex. calculateHouseholdExpenses (Some (Some cats)) = Inr ex"
  by (simp add: calculateHouseholdExpenses_def Let_def)

lemma calculateRamitBreakdown_present:
  "\<exists>rb. calculateRamitBreakdown (Some (Some cats)) n = Inr rb"
  by (simp add: calculateRamitBreakdown_def Let_def)

text \<open>
  A missing person entry is what the code guards: \<open>calculatePersonIncome\<close> returns
  the all-zero person calculation for it, and with both entries missing and the
  expense categories present \<open>calculateScenario\<close> returns a result.
\<close>

lemma calculateScenario_missing_persons:
  assumes "sc_income sc = Some \<lparr>person1 = None, person2 = None\<rparr>"
    and "sc_expenses sc = Some (Some cats)"
  shows "\<exists>r. calculateScenario (Some sc) = Inr (Some r) \<and>
             r_person1 r = getEmptyPersonCalculation \<and>
             r_person2 r = getEmptyPersonCalculation"
proof -
  obtain ex where ex: "calculateHouseholdExpenses (Some (Some cats)) = Inr ex"
    using calculateHouseholdExpenses_present by blast
  obtain rb where rb: "calculateRamitBreakdown (Some (Some cats)) 0 = Inr rb"
    using calculateRamitBreakdown_present by blast
  have "calculateScenario (Some sc)
          = Inr (Some (scenario_result getEmptyPersonCalculation getEmptyPersonCalculation
                         ex rb))"
    using assms ex rb
    by (simp add: calculateScenario_def calculatePersonIncome_def
          getEmptyPersonCalculation_def)
  then show ?thesis
    by (simp add: scenario_result_def)
qed

text \<open>
  Claim C2, as the code has it. For every scenario whose income subtree or expenses
  subtree is missing, \<open>calculateScenario\<close> raises an error and yields no result; the
  error is a TypeError when the income subtree is missing.
\<close>

theorem calculateScenario_missing_subtree:
  "(sc_income sc = None \<longrightarrow> calculateScenario (Some sc) = Inl TypeError) \<and>
   (sc_expenses sc = None \<longrightarrow> (\<exists>e. calculateScenario (Some sc) = Inl e))"
proof (intro conjI impI)
  assume "sc_income sc = None"
  then show "calculateScenario (Some sc) = Inl TypeError"
    by (simp add: calculateScenario_def)
next
  assume "sc_expenses sc = None"
  then have "calculateHouseholdExpenses (sc_expenses sc) = Inl TypeError"
    by (simp add: calculateHouseholdExpenses_def)
  then show "\<exists>e. calculateScenario (Some sc) = Inl e"
    by (simp add: calculateScenario_def split: option.split sum.split)
qed

theorem calculateScenario_missing_subtree_witness:
  "sc_income no_income_scenario = None \<and>
   calculateScenario (Some no_income_scenario) = Inl TypeError \<and>
   sc_expenses no_expenses_scenario = None \<and>
   (\<exists>e. calculateScenario (Some no_expenses_scenario) = Inl e)"
proof -
  have a: "sc_income no_income_scenario = None"
    by (simp add: no_income_scenario_def)
  have b: "sc_expenses no_expenses_scenario = None"
    by (simp add: no_expenses_scenario_def)
  show ?thesis
    using a b
      calculateScenario_missing_subtree[of no_income_scenario]
      calculateScenario_missing_subtree[of no_expenses_scenario]
    by blast
qed

text \<open>
  A scenario without its income subtree: the call raises instead of yielding zero
  figures.
\<close>

theorem calculateScenario_missing_income_counterexample:
  "calculateScenario (Some no_income_scenario) = Inl TypeError"
  by (simp add: calculateScenario_def no_income_scenario_def)

subsection \<open>Household effective rate\<close>

text \<open>
  The household rate is total tax over total gross income times 100 when the gross
  income is not 0.
\<close>

lemma scenario_result_effectiveRate:
  "pc_gross p1 + pc_gross p2 \<noteq> 0 \<Longrightarrow>
   hh_effectiveRate (r_household (scenario_result p1 p2 ex rb))
     = Num ((pc_totalTax p1 + pc_totalTax p2) / (pc_gross p1 + pc_gross p2) * 100)"
  by (simp add: scenario_result_def js_div_def)

text \<open>
  Claim C3 at a household without income. Both persons have a salary, bonus and other
  income of 0: \<open>calculateScenario\<close> returns a result whose household gross income is 0
  and whose household effective rate is \<open>NaN\<close>, the value of \<open>0 / 0 * 100\<close>, where
  the claim asks for 0. \<open>calculateEffectiveRate\<close> of the tax calculator tests
  \<open>grossIncome > 0\<close> before it divides; the household rate is computed without that
  test.
\<close>

theorem calculateScenario_zero_gross_effectiveRate:
  "(case calculateScenario (Some zero_income_scenario) of
      Inr (Some r) \<Rightarrow>
        hh_grossIncome (r_household r) = 0 \<and> hh_effectiveRate (r_household r) = NaN
    | _ \<Rightarrow> False)"
  by code_simp

section \<open>Properties of the scenario store\<close>

text \<open>
  Claim C8. In every state of the scenario store, whichever scenario is current,
  \<open>deleteScenario\<close> of \<open>baseline\<close> fails with the ProtectedScenario error and leaves
  the store, and so the scenarios in memory and the persisted ones, as it was.
\<close>

theorem deleteScenario_baseline:
  "deleteScenario ''baseline'' st = (Inl ProtectedScenario, st)"
  by (simp add: deleteScenario_def)

end
